theory Spec2Isabelle
  imports Complex_Main "HOL-Library.Log_Nat"
begin

section \<open>Documents of the shop backend\<close>

text \<open>
  The backend keeps two Mongoose collections, purchases and customers
  (\<^verbatim>\<open>models/Purchase.js\<close>, \<^verbatim>\<open>models/Customer.js\<close>). A JavaScript Number is
  modelled as an exact rational, a Date as its millisecond timestamp, an ObjectId as a
  natural number. A field that the code tests for absence (\<^verbatim>\<open>!this.totalAmount\<close>,
  \<^verbatim>\<open>this.dueDate && ...\<close>) is an option; \<open>None\<close> in a numeric field also stands for
  the NaN that arithmetic on an absent value produces. An item's \<^verbatim>\<open>totalPrice\<close> is
  required by the schema and overwritten by the hook. Fields that none of the modelled
  functions reads (address, notes, invoiceNumber, timestamps) are left out. The schema
  validators of the modelled fields run where \<^verbatim>\<open>save()\<close> runs them; the body of the
  generic update is taken as schema-valid. Only the growth figures of the dashboard,
  where a second decimal is decided, are computed in double precision.
\<close>

type_synonym objectId = nat
type_synonym date = int

datatype paymentStatus = Pending | Completed | Overdue | Cancelled

datatype paymentMethod = Cash | Card | BankTransfer | Upi | Wallet | Other

record purchaseItem =
  productName :: string
  quantity :: rat
  unitPrice :: rat
  totalPrice :: rat

record doc =
  oid :: objectId
  createdBy :: objectId

record purchase = doc +
  customer :: objectId
  items :: "purchaseItem list"
  totalAmount :: "rat option"
  paymentStatus :: paymentStatus
  paymentMethod :: paymentMethod
  purchaseDate :: date
  dueDate :: "date option"
  paidAmount :: rat
  remainingAmount :: "rat option"

record customer = doc +
  name :: string
  email :: string
  phone :: string
  totalPurchases :: rat
  totalSpent :: rat
  lastPurchaseDate :: "date option"
  isActive :: bool

section \<open>Money derivation: the pre-save hook of Purchase.js\<close>

text \<open>
  The \<^verbatim>\<open>forEach\<close> of lines 86-89: every item gets
  \<^verbatim>\<open>totalPrice = quantity * unitPrice\<close>, and the running \<^verbatim>\<open>calculatedTotal\<close>
  is increased by it. The function returns the rewritten items and the final total.
\<close>

fun forEach_items :: "rat \<Rightarrow> purchaseItem list \<Rightarrow> purchaseItem list \<times> rat" where
  "forEach_items calculatedTotal [] = ([], calculatedTotal)"
| "forEach_items calculatedTotal (item # rest) =
     (let item' = item\<lparr>totalPrice := quantity item * unitPrice item\<rparr>;
          (rest', total) = forEach_items (calculatedTotal + totalPrice item') rest
      in (item' # rest', total))"

text \<open>\<^verbatim>\<open>!this.totalAmount\<close>: true for an absent value (or NaN) and for the number 0.\<close>

definition not_truthy :: "rat option \<Rightarrow> bool" where
  "not_truthy v = (case v of None \<Rightarrow> True | Some x \<Rightarrow> x = 0)"

text \<open>\<^verbatim>\<open>this.totalAmount - this.paidAmount\<close>: NaN when the total is absent.\<close>

definition js_minus :: "rat option \<Rightarrow> rat \<Rightarrow> rat option" where
  "js_minus a b = (case a of None \<Rightarrow> None | Some x \<Rightarrow> Some (x - b))"

text \<open>\<^verbatim>\<open>this.remainingAmount <= 0\<close>: every comparison with NaN is false.\<close>

definition js_le_zero :: "rat option \<Rightarrow> bool" where
  "js_le_zero a = (case a of None \<Rightarrow> False | Some x \<Rightarrow> x \<le> 0)"

text \<open>\<^verbatim>\<open>this.remainingAmount > 0\<close>, likewise false on NaN.\<close>

definition js_gt_zero :: "rat option \<Rightarrow> bool" where
  "js_gt_zero a = (case a of None \<Rightarrow> False | Some x \<Rightarrow> 0 < x)"

text \<open>\<^verbatim>\<open>this.dueDate && new Date() > this.dueDate\<close>, with the clock as a parameter.\<close>

definition past_due :: "date \<Rightarrow> date option \<Rightarrow> bool" where
  "past_due now d = (case d of None \<Rightarrow> False | Some due \<Rightarrow> due < now)"

text \<open>
  Lines 82-107. The status is assigned in two branches only; there is no final
  \<^verbatim>\<open>else\<close>, and no test of the current status.
\<close>

definition pre_save :: "date \<Rightarrow> purchase \<Rightarrow> purchase" where
  "pre_save now p =
     (let p1 = (if items p \<noteq> [] then
                  (let (items', calculatedTotal) = forEach_items 0 (items p);
                       pa = p\<lparr>items := items'\<rparr>
                   in if not_truthy (totalAmount pa)
                      then pa\<lparr>totalAmount := Some calculatedTotal\<rparr> else pa)
                else p);
          p2 = p1\<lparr>remainingAmount := js_minus (totalAmount p1) (paidAmount p1)\<rparr>
      in if js_le_zero (remainingAmount p2) then p2\<lparr>paymentStatus := Completed\<rparr>
         else if past_due now (dueDate p2) then p2\<lparr>paymentStatus := Overdue\<rparr>
         else p2)"

text \<open>The virtual \<^verbatim>\<open>isOverdue\<close> of lines 129-131.\<close>

definition isOverdue :: "date \<Rightarrow> purchase \<Rightarrow> bool" where
  "isOverdue now p = (past_due now (dueDate p) \<and> js_gt_zero (remainingAmount p))"

section \<open>The store: collections and Mongoose calls\<close>

text \<open>
  A collection is the list of its documents in insertion order. \<^verbatim>\<open>findOne\<close> returns
  the first match, \<^verbatim>\<open>findOneAndUpdate\<close>, \<^verbatim>\<open>findByIdAndDelete\<close> and the write of
  \<^verbatim>\<open>save()\<close> act on the first match only.
\<close>

record db =
  purchases :: "purchase list"
  customers :: "customer list"

fun update_first :: "('a \<Rightarrow> bool) \<Rightarrow> ('a \<Rightarrow> 'a) \<Rightarrow> 'a list \<Rightarrow> 'a list" where
  "update_first P f [] = []"
| "update_first P f (x # xs) = (if P x then f x # xs else x # update_first P f xs)"

fun delete_first :: "('a \<Rightarrow> bool) \<Rightarrow> 'a list \<Rightarrow> 'a list" where
  "delete_first P [] = []"
| "delete_first P (x # xs) = (if P x then xs else x # delete_first P xs)"

text \<open>
  The errors the handlers build, \<^verbatim>\<open>new Error(msg)\<close> with a \<^verbatim>\<open>statusCode\<close>, and the
  \<^verbatim>\<open>ValidationError\<close> that \<^verbatim>\<open>save()\<close> throws.
\<close>

datatype error = Error (message: string) (statusCode: nat) | ValidationError

definition purchase_not_found :: error where
  "purchase_not_found = Error ''Purchase not found'' 404"

definition customer_not_found :: error where
  "customer_not_found = Error ''Customer not found'' 404"

text \<open>\<^verbatim>\<open>Purchase.findOne({ _id: id, createdBy: user })\<close>\<close>

definition findOne_purchase :: "db \<Rightarrow> objectId \<Rightarrow> objectId \<Rightarrow> purchase option" where
  "findOne_purchase d i user = find (\<lambda>p. oid p = i \<and> createdBy p = user) (purchases d)"

text \<open>\<^verbatim>\<open>Customer.findOne({ _id: id, createdBy: user })\<close>\<close>

definition findOne_customer :: "db \<Rightarrow> objectId \<Rightarrow> objectId \<Rightarrow> customer option" where
  "findOne_customer d i user = find (\<lambda>c. oid c = i \<and> createdBy c = user) (customers d)"

text \<open>\<^verbatim>\<open>Customer.findById(id)\<close>\<close>

definition findById_customer :: "db \<Rightarrow> objectId \<Rightarrow> customer option" where
  "findById_customer d i = find (\<lambda>c. oid c = i) (customers d)"

text \<open>The purchases that \<^verbatim>\<open>{ $match: { customer: id } }\<close> selects.\<close>

definition purchases_of :: "db \<Rightarrow> objectId \<Rightarrow> purchase list" where
  "purchases_of d i = filter (\<lambda>p. customer p = i) (purchases d)"

text \<open>\<^verbatim>\<open>doc.save()\<close> of an existing document: the stored copy with its \<^verbatim>\<open>_id\<close> is replaced.\<close>

definition persist_purchase :: "purchase \<Rightarrow> db \<Rightarrow> db" where
  "persist_purchase p d = d\<lparr>purchases := update_first (\<lambda>x. oid x = oid p) (\<lambda>_. p) (purchases d)\<rparr>"

definition persist_customer :: "customer \<Rightarrow> db \<Rightarrow> db" where
  "persist_customer c d = d\<lparr>customers := update_first (\<lambda>x. oid x = oid c) (\<lambda>_. c) (customers d)\<rparr>"

text \<open>
  The validators of the purchase schema (Purchase.js, lines 3-79) on the modelled fields:
  every item needs a name (taken as already trimmed), a quantity of at least 1 and a
  unit price that is not negative; the total is required and not negative; the paid
  amount is not negative. \<^verbatim>\<open>save()\<close> validates the document as it stands before the
  pre-save hook runs.
\<close>

definition item_valid :: "purchaseItem \<Rightarrow> bool" where
  "item_valid item = (productName item \<noteq> [] \<and> 1 \<le> quantity item \<and> 0 \<le> unitPrice item)"

definition validate_purchase :: "purchase \<Rightarrow> bool" where
  "validate_purchase p =
     (list_all item_valid (items p)
      \<and> (case totalAmount p of None \<Rightarrow> False | Some t \<Rightarrow> 0 \<le> t)
      \<and> 0 \<le> paidAmount p)"

section \<open>Aggregate reconciliation: Customer.js, updatePurchaseStats\<close>

record purchaseStats =
  stats_totalPurchases :: rat
  stats_totalSpent :: rat
  stats_lastPurchaseDate :: date

text \<open>\<^verbatim>\<open>$sum: '$totalAmount'\<close> skips a document whose field is missing.\<close>

definition amount_of :: "purchase \<Rightarrow> rat" where
  "amount_of p = (case totalAmount p of None \<Rightarrow> 0 | Some t \<Rightarrow> t)"

text \<open>
  The \<^verbatim>\<open>$group\<close> stage with \<^verbatim>\<open>_id: null\<close>: one row for a non-empty input, no row
  for an empty one.
\<close>

definition group_stats :: "purchase list \<Rightarrow> purchaseStats list" where
  "group_stats ps =
     (case ps of [] \<Rightarrow> []
      | p # rest \<Rightarrow>
          [\<lparr>stats_totalPurchases = of_nat (length ps),
            stats_totalSpent = sum_list (map amount_of ps),
            stats_lastPurchaseDate = fold max (map purchaseDate rest) (purchaseDate p)\<rparr>])"

text \<open>Lines 83-104 of Customer.js.\<close>

definition updatePurchaseStats :: "db \<Rightarrow> customer \<Rightarrow> db" where
  "updatePurchaseStats d this =
     (let stats = group_stats (purchases_of d (oid this));
          this' = (case stats of
                     s # _ \<Rightarrow> this\<lparr>totalPurchases := stats_totalPurchases s,
                                    totalSpent := stats_totalSpent s,
                                    lastPurchaseDate := Some (stats_lastPurchaseDate s)\<rparr>
                   | [] \<Rightarrow> this)
      in persist_customer this' d)"

text \<open>The post-save hook of Purchase.js, lines 110-120.\<close>

definition post_save :: "db \<Rightarrow> purchase \<Rightarrow> db" where
  "post_save d this =
     (case findById_customer d (customer this) of
        Some c \<Rightarrow> updatePurchaseStats d c
      | None \<Rightarrow> d)"

section \<open>Purchase routes\<close>

text \<open>
  The request body of \<^verbatim>\<open>POST /api/purchases\<close>; a field that is \<open>None\<close> takes the
  schema default when the document is built.
\<close>

record purchaseBody =
  body_customer :: objectId
  body_items :: "purchaseItem list"
  body_totalAmount :: "rat option"
  body_paymentStatus :: "paymentStatus option"
  body_paymentMethod :: "paymentMethod option"
  body_purchaseDate :: "date option"
  body_dueDate :: "date option"
  body_paidAmount :: "rat option"
  body_remainingAmount :: "rat option"

text \<open>
  \<^verbatim>\<open>new Purchase({ ...req.body, createdBy: req.user._id })\<close> with the schema's
  defaults; the driver supplies the fresh \<^verbatim>\<open>_id\<close>.
\<close>

definition new_purchase :: "objectId \<Rightarrow> objectId \<Rightarrow> date \<Rightarrow> purchaseBody \<Rightarrow> purchase" where
  "new_purchase newId user now b =
     \<lparr>oid = newId, createdBy = user,
      customer = body_customer b,
      items = body_items b,
      totalAmount = body_totalAmount b,
      paymentStatus = (case body_paymentStatus b of None \<Rightarrow> Pending | Some s \<Rightarrow> s),
      paymentMethod = (case body_paymentMethod b of None \<Rightarrow> Cash | Some m \<Rightarrow> m),
      purchaseDate = (case body_purchaseDate b of None \<Rightarrow> now | Some t \<Rightarrow> t),
      dueDate = body_dueDate b,
      paidAmount = (case body_paidAmount b of None \<Rightarrow> 0 | Some a \<Rightarrow> a),
      remainingAmount = (case body_remainingAmount b of None \<Rightarrow> Some 0 | Some a \<Rightarrow> Some a)\<rparr>"

text \<open>\<^verbatim>\<open>getPurchase\<close>, lines 82-101.\<close>

definition getPurchase :: "db \<Rightarrow> objectId \<Rightarrow> objectId \<Rightarrow> error + purchase" where
  "getPurchase d user i =
     (case findOne_purchase d i user of
        None \<Rightarrow> Inl purchase_not_found
      | Some p \<Rightarrow> Inr p)"

text \<open>
  \<^verbatim>\<open>createPurchase\<close>, lines 106-141. \<^verbatim>\<open>Purchase.create\<close> validates the new
  document, runs the pre-save hook, inserts the document and runs the post-save hook; a
  document that fails validation is not derived and not stored.
\<close>

definition createPurchase ::
  "db \<Rightarrow> objectId \<Rightarrow> objectId \<Rightarrow> date \<Rightarrow> purchaseBody \<Rightarrow> error + (db \<times> purchase)" where
  "createPurchase d user newId now b =
     (case findOne_customer d (body_customer b) user of
        None \<Rightarrow> Inl customer_not_found
      | Some c \<Rightarrow>
          (if \<not> validate_purchase (new_purchase newId user now b) then Inl ValidationError
           else
             (let p = pre_save now (new_purchase newId user now b);
                  d1 = d\<lparr>purchases := purchases d @ [p]\<rparr>
              in Inr (post_save d1 p, p))))"

text \<open>
  The body of \<^verbatim>\<open>PUT /api/purchases/:id\<close>: the fields present are written as they
  are.
\<close>

record purchaseUpdate =
  upd_customer :: "objectId option"
  upd_items :: "purchaseItem list option"
  upd_totalAmount :: "rat option"
  upd_paymentStatus :: "paymentStatus option"
  upd_paymentMethod :: "paymentMethod option"
  upd_purchaseDate :: "date option"
  upd_dueDate :: "date option"
  upd_paidAmount :: "rat option"
  upd_remainingAmount :: "rat option"

definition set_field :: "'b option \<Rightarrow> (('b \<Rightarrow> 'b) \<Rightarrow> 'a \<Rightarrow> 'a) \<Rightarrow> 'a \<Rightarrow> 'a" where
  "set_field v upd x = (case v of None \<Rightarrow> x | Some y \<Rightarrow> upd (\<lambda>_. y) x)"

definition apply_update :: "purchaseUpdate \<Rightarrow> purchase \<Rightarrow> purchase" where
  "apply_update u p =
     (set_field (upd_customer u) customer_update
      (set_field (upd_items u) items_update
      (set_field (map_option Some (upd_totalAmount u)) totalAmount_update
      (set_field (upd_paymentStatus u) paymentStatus_update
      (set_field (upd_paymentMethod u) paymentMethod_update
      (set_field (upd_purchaseDate u) purchaseDate_update
      (set_field (map_option Some (upd_dueDate u)) dueDate_update
      (set_field (upd_paidAmount u) paidAmount_update
      (set_field (map_option Some (upd_remainingAmount u)) remainingAmount_update p)))))))))"

text \<open>
  \<^verbatim>\<open>updatePurchase\<close>, lines 146-177. \<^verbatim>\<open>findOneAndUpdate\<close> is a query: it writes
  the body's fields into the first matching document and returns it (\<^verbatim>\<open>new: true\<close>).
  The hooks registered with \<^verbatim>\<open>pre('save')\<close> and \<^verbatim>\<open>post('save')\<close> belong to
  \<^verbatim>\<open>save()\<close> and are not run by it. The body is taken as schema-valid.
\<close>

definition updatePurchase ::
  "db \<Rightarrow> objectId \<Rightarrow> objectId \<Rightarrow> purchaseUpdate \<Rightarrow> error + (db \<times> purchase)" where
  "updatePurchase d user i u =
     (case findOne_purchase d i user of
        None \<Rightarrow> Inl purchase_not_found
      | Some p \<Rightarrow>
          Inr (d\<lparr>purchases := update_first (\<lambda>x. oid x = i \<and> createdBy x = user)
                                  (apply_update u) (purchases d)\<rparr>,
               apply_update u p))"

text \<open>\<^verbatim>\<open>deletePurchase\<close>, lines 182-214.\<close>

definition deletePurchase :: "db \<Rightarrow> objectId \<Rightarrow> objectId \<Rightarrow> error + db" where
  "deletePurchase d user i =
     (case findOne_purchase d i user of
        None \<Rightarrow> Inl purchase_not_found
      | Some p \<Rightarrow>
          (let d1 = d\<lparr>purchases := delete_first (\<lambda>x. oid x = i) (purchases d)\<rparr>
           in Inr (case findById_customer d1 (customer p) of
                     Some c \<Rightarrow> updatePurchaseStats d1 c
                   | None \<Rightarrow> d1)))"

text \<open>The body of \<^verbatim>\<open>PUT /api/purchases/:id/payment\<close>.\<close>

record paymentBody =
  pay_paidAmount :: "rat option"
  pay_paymentStatus :: "paymentStatus option"
  pay_paymentMethod :: "paymentMethod option"

text \<open>
  \<^verbatim>\<open>updatePaymentStatus\<close>, lines 219-259: the three assignments, then
  \<^verbatim>\<open>purchase.save()\<close>: validation, pre-save hook, write, post-save hook.
\<close>

definition updatePaymentStatus ::
  "db \<Rightarrow> objectId \<Rightarrow> objectId \<Rightarrow> date \<Rightarrow> paymentBody \<Rightarrow> error + (db \<times> purchase)" where
  "updatePaymentStatus d user i now b =
     (case findOne_purchase d i user of
        None \<Rightarrow> Inl purchase_not_found
      | Some p \<Rightarrow>
          (let p1 = (case pay_paidAmount b of None \<Rightarrow> p | Some a \<Rightarrow> p\<lparr>paidAmount := a\<rparr>);
               p2 = (case pay_paymentStatus b of None \<Rightarrow> p1 | Some s \<Rightarrow> p1\<lparr>paymentStatus := s\<rparr>);
               p3 = (case pay_paymentMethod b of None \<Rightarrow> p2 | Some m \<Rightarrow> p2\<lparr>paymentMethod := m\<rparr>)
           in if \<not> validate_purchase p3 then Inl ValidationError
              else
                (let p4 = pre_save now p3;
                     d1 = persist_purchase p4 d
                 in Inr (post_save d1 p4, p4))))"

section \<open>Customer routes: deleteCustomer\<close>

datatype customerEvent = Customer_deactivated | Customer_deleted

text \<open>\<^verbatim>\<open>deleteCustomer\<close>, lines 180-221 of the customer routes.\<close>

definition deleteCustomer :: "db \<Rightarrow> objectId \<Rightarrow> objectId \<Rightarrow> error + (db \<times> customerEvent)" where
  "deleteCustomer d user i =
     (case findOne_customer d i user of
        None \<Rightarrow> Inl customer_not_found
      | Some c \<Rightarrow>
          (let purchaseCount = length (purchases_of d (oid c))
           in if purchaseCount > 0
              then Inr (persist_customer (c\<lparr>isActive := False\<rparr>) d, Customer_deactivated)
              else Inr (d\<lparr>customers := delete_first (\<lambda>x. oid x = i) (customers d)\<rparr>,
                        Customer_deleted)))"

section \<open>Dashboard routes: getMonthlyComparison\<close>



text \<open>
  The growth figures are computed in IEEE 754 double precision, as JavaScript does. A
  finite double is the rational it denotes; \<open>None\<close> stands for a result that is not
  finite (an infinity or NaN).

  \<open>round_half_even\<close> rounds to the nearest integer, ties to the even one. \<open>binade x\<close>
  is the exponent \<open>e\<close> with \<open>2 powi e \<le> x < 2 powi (e + 1)\<close> for a positive \<open>x\<close>.
  \<open>to_double\<close> rounds an exact result to the nearest double: 53 significant bits,
  subnormal numbers in steps of \<open>2 powi (- 1074)\<close>, and an infinity when the rounded
  magnitude reaches \<open>2 powi 1024\<close>.
\<close>

definition round_half_even :: "rat \<Rightarrow> int" where
  "round_half_even q =
     (let f = \<lfloor>q\<rfloor>; r = q - of_int f
      in if r < 1 / 2 then f else if 1 / 2 < r then f + 1 else if even f then f else f + 1)"

definition binade :: "rat \<Rightarrow> int" where
  "binade x =
     (let (a, b) = quotient_of x; k = bitlen a - bitlen b
      in if 2 powi k \<le> x then k else k - 1)"

definition to_double :: "rat \<Rightarrow> rat option" where
  "to_double x =
     (if x = 0 then Some 0
      else let e = binade \<bar>x\<bar>;
               ulp = 2 powi (max (e - 52) (- 1074));
               m = round_half_even (\<bar>x\<bar> / ulp)
           in if 1024 \<le> e \<or> (e = 1023 \<and> m = 2 ^ 53) then None
              else Some (sgn x * (of_int m * ulp)))"







section \<open>The reconciliation property\<close>

text \<open>
  What claim C1 asks of a customer \<open>c\<close> and the list \<open>ps\<close> of its purchases: the
  stored count, sum and latest date are those of the list.
\<close>

definition aggregates_equal_fold :: "customer \<Rightarrow> purchase list \<Rightarrow> bool" where
  "aggregates_equal_fold c ps =
     (totalPurchases c = of_nat (length ps)
      \<and> totalSpent c = sum_list (map amount_of ps)
      \<and> lastPurchaseDate c = Some (Max (set (map purchaseDate ps))))"

section \<open>Example documents\<close>

definition ex_item :: purchaseItem where
  "ex_item = \<lparr>productName = ''rice'', quantity = 2, unitPrice = 5, totalPrice = 10\<rparr>"

definition ex_purchase :: purchase where
  "ex_purchase = \<lparr>oid = 10, createdBy = 7, customer = 5, items = [],
     totalAmount = Some 100, paymentStatus = Pending, paymentMethod = Cash,
     purchaseDate = 1000, dueDate = None, paidAmount = 0, remainingAmount = Some 100\<rparr>"

definition ex_customer :: customer where
  "ex_customer = \<lparr>oid = 5, createdBy = 7, name = ''Asha'', email = ''asha@example.com'',
     phone = ''+91 98765 43210'', totalPurchases = 1, totalSpent = 100,
     lastPurchaseDate = Some 1000, isActive = True\<rparr>"

definition ex_db :: db where
  "ex_db = \<lparr>purchases = [ex_purchase], customers = [ex_customer]\<rparr>"

definition ex_body :: purchaseBody where
  "ex_body = \<lparr>body_customer = 5, body_items = [ex_item], body_totalAmount = Some 10,
     body_paymentStatus = None, body_paymentMethod = None, body_purchaseDate = None,
     body_dueDate = Some 500, body_paidAmount = None, body_remainingAmount = None\<rparr>"

definition ex_payment :: paymentBody where
  "ex_payment = \<lparr>pay_paidAmount = Some 40, pay_paymentStatus = None, pay_paymentMethod = None\<rparr>"

definition ex_update :: purchaseUpdate where
  "ex_update = \<lparr>upd_customer = None, upd_items = None, upd_totalAmount = None,
     upd_paymentStatus = None, upd_paymentMethod = None, upd_purchaseDate = None,
     upd_dueDate = None, upd_paidAmount = Some 100, upd_remainingAmount = None\<rparr>"

definition ex_purchase2 :: purchase where
  "ex_purchase2 = ex_purchase\<lparr>oid := 11, totalAmount := Some 50, purchaseDate := 3000,
     remainingAmount := Some 50\<rparr>"

section \<open>Unfolding rules\<close>

lemmas store_defs = findOne_purchase_def findOne_customer_def findById_customer_def
  purchases_of_def persist_purchase_def persist_customer_def amount_of_def group_stats_def
  updatePurchaseStats_def post_save_def new_purchase_def validate_purchase_def item_valid_def

lemmas derive_defs = pre_save_def not_truthy_def js_minus_def js_le_zero_def past_due_def

section \<open>Facts about the derivation\<close>

lemma forEach_items_fst:
  "fst (forEach_items acc xs) = map (\<lambda>item. item\<lparr>totalPrice := quantity item * unitPrice item\<rparr>) xs"
  by (induction xs arbitrary: acc) (simp_all add: Let_def split_beta)

lemma forEach_items_snd:
  "snd (forEach_items acc xs) = acc + sum_list (map (\<lambda>item. quantity item * unitPrice item) xs)"
  by (induction xs arbitrary: acc) (simp_all add: Let_def split_beta)

lemma pre_save_items:
  "items (pre_save now p) = map (\<lambda>item. item\<lparr>totalPrice := quantity item * unitPrice item\<rparr>) (items p)"
  by (simp add: pre_save_def Let_def split_beta forEach_items_fst)

lemma pre_save_totalAmount:
  "totalAmount (pre_save now p) =
     (if items p \<noteq> [] \<and> not_truthy (totalAmount p)
      then Some (sum_list (map (\<lambda>item. quantity item * unitPrice item) (items p)))
      else totalAmount p)"
  by (simp add: pre_save_def Let_def split_beta forEach_items_snd)

lemma pre_save_paidAmount: "paidAmount (pre_save now p) = paidAmount p"
  by (simp add: pre_save_def Let_def split_beta)

lemma pre_save_dueDate: "dueDate (pre_save now p) = dueDate p"
  by (simp add: pre_save_def Let_def split_beta)

lemma pre_save_remainingAmount:
  "remainingAmount (pre_save now p) = js_minus (totalAmount (pre_save now p)) (paidAmount p)"
  by (simp add: pre_save_def Let_def split_beta)

lemma pre_save_paymentStatus:
  "paymentStatus (pre_save now p) =
     (if js_le_zero (remainingAmount (pre_save now p)) then Completed
      else if past_due now (dueDate p) then Overdue
      else paymentStatus p)"
  by (simp add: pre_save_def Let_def split_beta)

lemma pre_save_frame:
  "oid (pre_save now p) = oid p" "createdBy (pre_save now p) = createdBy p"
  "customer (pre_save now p) = customer p" "purchaseDate (pre_save now p) = purchaseDate p"
  "paymentMethod (pre_save now p) = paymentMethod p"
  by (simp_all add: pre_save_def Let_def split_beta)


lemma idem_totalAmount: "totalAmount (pre_save now (pre_save now p)) = totalAmount (pre_save now p)"
  by (simp add: pre_save_totalAmount pre_save_items comp_def not_truthy_def)

lemma idem_items: "items (pre_save now (pre_save now p)) = items (pre_save now p)"
  by (simp add: pre_save_items comp_def)

lemma idem_remainingAmount:
  "remainingAmount (pre_save now (pre_save now p)) = remainingAmount (pre_save now p)"
  by (simp add: pre_save_remainingAmount idem_totalAmount pre_save_paidAmount)

lemma idem_paymentStatus:
  "paymentStatus (pre_save now (pre_save now p)) = paymentStatus (pre_save now p)"
  by (simp add: pre_save_paymentStatus [of now "pre_save now p"] idem_remainingAmount pre_save_dueDate)
     (simp add: pre_save_paymentStatus)

lemma pre_save_idem: "pre_save now (pre_save now p) = pre_save now p"
  by (rule purchase.equality)
     (simp_all add: idem_totalAmount idem_items idem_remainingAmount idem_paymentStatus
        pre_save_frame pre_save_paidAmount pre_save_dueDate)


section \<open>The claims about the derivation\<close>

text \<open>
  Claim C2, as the code has it: the hook does not look at the current status, so a
  cancelled purchase stays cancelled only when the derived remaining amount is not
  \<open>\<le> 0\<close> and the purchase is not past its due date; otherwise it becomes completed or
  overdue like any other purchase.
\<close>

theorem cancelled_overwritten_by_derivation:
  assumes "paymentStatus p = Cancelled"
  shows "paymentStatus (pre_save now p) =
           (if js_le_zero (remainingAmount (pre_save now p)) then Completed
            else if past_due now (dueDate p) then Overdue
            else Cancelled)"
  using assms by (simp add: pre_save_paymentStatus)

text \<open>
  A cancelled purchase that still owes 100 and has no due date stays cancelled.
\<close>

theorem cancelled_overwritten_by_derivation_witness:
  "paymentStatus (ex_purchase\<lparr>paymentStatus := Cancelled\<rparr>) = Cancelled
   \<and> paymentStatus (pre_save 0 (ex_purchase\<lparr>paymentStatus := Cancelled\<rparr>)) = Cancelled"
  using cancelled_overwritten_by_derivation [of "ex_purchase\<lparr>paymentStatus := Cancelled\<rparr>" 0]
  by (simp add: ex_purchase_def pre_save_remainingAmount pre_save_totalAmount
      js_minus_def js_le_zero_def past_due_def)

text \<open>
  Claim C2 as stated fails: a cancelled purchase that is fully paid leaves the hook as
  completed.
\<close>

theorem cancelled_not_sticky_counterexample:
  "paymentStatus (ex_purchase\<lparr>paymentStatus := Cancelled, paidAmount := 100\<rparr>) = Cancelled
   \<and> paymentStatus (pre_save 0 (ex_purchase\<lparr>paymentStatus := Cancelled, paidAmount := 100\<rparr>))
       \<noteq> Cancelled"
  by (simp add: ex_purchase_def pre_save_paymentStatus pre_save_remainingAmount
      pre_save_totalAmount js_minus_def js_le_zero_def)

text \<open>
  Claim C3, as the code has it: for a purchase that is not cancelled the derived status
  is completed when the remaining amount is \<open>\<le> 0\<close>, else overdue when a due date is set
  and now is strictly after it, and else the status the purchase already had; that is
  pending for a purchase created without an explicit status. The virtual
  \<^verbatim>\<open>isOverdue\<close> of a derived purchase implies the overdue status.
\<close>

theorem status_derivation_keeps_status_otherwise:
  assumes "paymentStatus p \<noteq> Cancelled"
  shows "paymentStatus (pre_save now p) =
           (if js_le_zero (remainingAmount (pre_save now p)) then Completed
            else if past_due now (dueDate p) then Overdue
            else paymentStatus p)
         \<and> past_due now (dueDate p) = (\<exists>due. dueDate p = Some due \<and> due < now)
         \<and> (isOverdue now (pre_save now p) \<longrightarrow> paymentStatus (pre_save now p) = Overdue)
         \<and> (body_paymentStatus b = None \<longrightarrow>
              paymentStatus (pre_save now (new_purchase newId user now b)) =
                (if js_le_zero (remainingAmount (pre_save now (new_purchase newId user now b)))
                 then Completed
                 else if past_due now (body_dueDate b) then Overdue
                 else Pending))"
proof -
  have a: "past_due now (dueDate p) = (\<exists>due. dueDate p = Some due \<and> due < now)"
    by (cases "dueDate p") (simp_all add: past_due_def)
  have b: "isOverdue now (pre_save now p) \<longrightarrow> paymentStatus (pre_save now p) = Overdue"
    by (cases "remainingAmount (pre_save now p)")
       (simp_all add: isOverdue_def pre_save_dueDate pre_save_paymentStatus [of now p]
          js_gt_zero_def js_le_zero_def)
  have c: "body_paymentStatus b = None \<longrightarrow>
              paymentStatus (pre_save now (new_purchase newId user now b)) =
                (if js_le_zero (remainingAmount (pre_save now (new_purchase newId user now b)))
                 then Completed
                 else if past_due now (body_dueDate b) then Overdue
                 else Pending)"
    by (simp add: pre_save_paymentStatus [of now "new_purchase newId user now b"])
       (simp add: new_purchase_def)
  show ?thesis using a b c by (simp add: pre_save_paymentStatus [of now p])
qed

text \<open>
  A pending purchase without a due date stays pending; a purchase created without a
  status, owing 10 and past its due date, becomes overdue; a pending purchase owing 100
  and past its due date is overdue by the virtual and by its status.
\<close>

theorem status_derivation_keeps_status_otherwise_witness:
  "paymentStatus ex_purchase \<noteq> Cancelled
   \<and> paymentStatus (pre_save 1000 ex_purchase) = Pending
   \<and> body_paymentStatus ex_body = None
   \<and> paymentStatus (pre_save 1000 (new_purchase 11 7 1000 ex_body)) = Overdue
   \<and> paymentStatus (ex_purchase\<lparr>dueDate := Some 500\<rparr>) \<noteq> Cancelled
   \<and> isOverdue 1000 (pre_save 1000 (ex_purchase\<lparr>dueDate := Some 500\<rparr>))
   \<and> paymentStatus (pre_save 1000 (ex_purchase\<lparr>dueDate := Some 500\<rparr>)) = Overdue"
  using status_derivation_keeps_status_otherwise
          [where p = ex_purchase and now = 1000 and b = ex_body and newId = 11 and user = 7]
        status_derivation_keeps_status_otherwise
          [where p = "ex_purchase\<lparr>dueDate := Some 500\<rparr>" and now = 1000 and b = ex_body]
  by (simp add: ex_purchase_def ex_body_def ex_item_def new_purchase_def isOverdue_def
      pre_save_remainingAmount pre_save_totalAmount pre_save_dueDate not_truthy_def
      js_minus_def js_le_zero_def js_gt_zero_def past_due_def)

text \<open>
  Claim C3 as stated fails: a purchase marked completed that owes 100 and has no due
  date is not set back to pending.
\<close>

theorem status_not_reset_to_pending_counterexample:
  "paymentStatus (ex_purchase\<lparr>paymentStatus := Completed\<rparr>) \<noteq> Cancelled
   \<and> remainingAmount (pre_save 0 (ex_purchase\<lparr>paymentStatus := Completed\<rparr>)) = Some 100
   \<and> dueDate (ex_purchase\<lparr>paymentStatus := Completed\<rparr>) = None
   \<and> paymentStatus (pre_save 0 (ex_purchase\<lparr>paymentStatus := Completed\<rparr>)) \<noteq> Pending"
  by (simp add: ex_purchase_def pre_save_paymentStatus pre_save_remainingAmount
      pre_save_totalAmount js_minus_def js_le_zero_def past_due_def)

text \<open>
  Claim C6: after derivation the remaining amount is the total minus the paid amount,
  a second derivation at the same time changes nothing, and an overpayment is stored as
  a negative remainder.
\<close>

theorem remainingAmount_and_idempotence:
  "remainingAmount (pre_save now p) =
     js_minus (totalAmount (pre_save now p)) (paidAmount (pre_save now p))
   \<and> pre_save now (pre_save now p) = pre_save now p
   \<and> remainingAmount (pre_save now (ex_purchase\<lparr>paidAmount := 150\<rparr>)) = Some (- 50)"
  by (simp add: pre_save_remainingAmount pre_save_paidAmount pre_save_idem)
     (simp add: pre_save_totalAmount ex_purchase_def js_minus_def)

section \<open>Facts about the store\<close>

lemma find_update_first:
  "find P xs = Some x \<Longrightarrow> P y \<Longrightarrow> find P (update_first P (\<lambda>_. y) xs) = Some y"
  by (induction xs) (auto split: if_splits)

lemma find_update_first_None:
  "find P xs = None \<Longrightarrow> update_first P f xs = xs"
  by (induction xs) (auto split: if_splits)

lemma update_first_same:
  "find P xs = Some x \<Longrightarrow> update_first P (\<lambda>_. x) xs = xs"
  by (induction xs) (auto split: if_splits)

lemma find_Some_P: "find P xs = Some x \<Longrightarrow> P x \<and> x \<in> set xs"
  by (induction xs) (auto split: if_splits)

lemma group_stats_nonempty:
  assumes "ps \<noteq> []"
  shows "group_stats ps =
     [\<lparr>stats_totalPurchases = of_nat (length ps),
       stats_totalSpent = sum_list (map amount_of ps),
       stats_lastPurchaseDate = Max (set (map purchaseDate ps))\<rparr>]"
proof (cases ps)
  case Nil
  with assms show ?thesis by simp
next
  case (Cons p rest)
  have "fold max (map purchaseDate rest) (purchaseDate p) = Max (set (map purchaseDate ps))"
    using Max.set_eq_fold [of "purchaseDate p" "map purchaseDate rest"] Cons by simp
  then show ?thesis using Cons by (simp add: group_stats_def)
qed

lemma group_stats_empty: "group_stats [] = []"
  by (simp add: group_stats_def)

lemma updatePurchaseStats_empty:
  "purchases_of d (oid c) = [] \<Longrightarrow> updatePurchaseStats d c = persist_customer c d"
  by (simp add: updatePurchaseStats_def group_stats_empty)

lemma updatePurchaseStats_nonempty:
  "purchases_of d (oid c) \<noteq> [] \<Longrightarrow>
   updatePurchaseStats d c =
     persist_customer
       (c\<lparr>totalPurchases := of_nat (length (purchases_of d (oid c))),
          totalSpent := sum_list (map amount_of (purchases_of d (oid c))),
          lastPurchaseDate := Some (Max (set (map purchaseDate (purchases_of d (oid c)))))\<rparr>) d"
  by (simp add: updatePurchaseStats_def group_stats_nonempty)

lemma purchases_persist_customer: "purchases (persist_customer c d) = purchases d"
  by (simp add: persist_customer_def)

lemma purchases_of_persist_customer: "purchases_of (persist_customer c d) j = purchases_of d j"
  by (simp add: purchases_of_def persist_customer_def)

lemma purchases_of_updatePurchaseStats:
  "purchases_of (updatePurchaseStats d c) j = purchases_of d j"
  by (simp add: updatePurchaseStats_def Let_def purchases_of_persist_customer)

lemma findById_persist_customer:
  "findById_customer d (oid c) = Some c0 \<Longrightarrow>
   findById_customer (persist_customer c d) (oid c) = Some c"
  by (simp add: findById_customer_def persist_customer_def find_update_first)

lemma persist_customer_same:
  "findById_customer d (oid c) = Some c \<Longrightarrow> persist_customer c d = d"
  by (simp add: findById_customer_def persist_customer_def update_first_same)


lemma find_weaken:
  "find P xs = Some x \<Longrightarrow> (\<And>y. P y \<Longrightarrow> Q y) \<Longrightarrow> \<exists>z. find Q xs = Some z"
  by (induction xs) (auto split: if_splits)

lemma find_delete_first_distinct:
  "distinct (map oid xs) \<Longrightarrow> find (\<lambda>x. oid x = i) (delete_first (\<lambda>x. oid x = i) xs) = None"
  by (induction xs) (auto simp: find_None_iff image_iff)

lemma find_None_foreign:
  "(\<forall>x\<in>set xs. oid x = i \<longrightarrow> createdBy x \<noteq> user) \<Longrightarrow>
   find (\<lambda>x. oid x = i \<and> createdBy x = user) xs = None"
  by (auto simp: find_None_iff)

lemma reconciled_customer:
  assumes d': "d' = (case findById_customer d1 j of Some c0 \<Rightarrow> updatePurchaseStats d1 c0 | None \<Rightarrow> d1)"
    and c: "findById_customer d' j = Some c"
    and ne: "purchases_of d' j \<noteq> []"
  shows "aggregates_equal_fold c (purchases_of d' j)"
proof (cases "findById_customer d1 j")
  case None
  with d' c show ?thesis by simp
next
  case (Some c0)
  then have j: "oid c0 = j"
    using find_Some_P [of "\<lambda>c. oid c = j" "customers d1" c0] by (simp add: findById_customer_def)
  from Some d' have eq: "d' = updatePurchaseStats d1 c0" by simp
  then have ps: "purchases_of d' j = purchases_of d1 j"
    by (simp add: purchases_of_updatePurchaseStats)
  with ne j have ne1: "purchases_of d1 (oid c0) \<noteq> []" by simp
  let ?c' = "c0\<lparr>totalPurchases := of_nat (length (purchases_of d1 (oid c0))),
          totalSpent := sum_list (map amount_of (purchases_of d1 (oid c0))),
          lastPurchaseDate := Some (Max (set (map purchaseDate (purchases_of d1 (oid c0)))))\<rparr>"
  have "d' = persist_customer ?c' d1"
    using eq updatePurchaseStats_nonempty [OF ne1] by simp
  moreover have "findById_customer (persist_customer ?c' d1) (oid ?c') = Some ?c'"
    using Some j by (intro findById_persist_customer [of d1 ?c' c0]) simp
  ultimately have "findById_customer d' j = Some ?c'" using j by simp
  with c have "c = ?c'" by simp
  then show ?thesis using ps j by (simp add: aggregates_equal_fold_def)
qed

lemma length_update_first: "length (update_first P f xs) = length xs"
  by (induction xs) simp_all

lemma map_oid_update_first:
  "oid y = oid c \<Longrightarrow>
   map oid (update_first (\<lambda>x. oid x = oid c) (\<lambda>_. y) xs) = map oid xs"
  by (induction xs) simp_all

lemma find_Some_ex: "(\<exists>c. find P xs = Some c) = (\<exists>x\<in>set xs. P x)"
  by (induction xs) auto

lemma find_by_oid_cong:
  assumes "map oid xs = map oid ys"
  shows "(\<exists>c. find (\<lambda>x. oid x = j) xs = Some c) = (\<exists>c. find (\<lambda>x. oid x = j) ys = Some c)"
proof -
  have "(\<exists>x\<in>set xs. oid x = j) = (j \<in> set (map oid xs))" by auto
  moreover have "(\<exists>x\<in>set ys. oid x = j) = (j \<in> set (map oid ys))" by auto
  ultimately show ?thesis using assms by (simp only: find_Some_ex)
qed

lemma update_first_mem:
  "\<exists>x\<in>set xs. P x \<Longrightarrow> y \<in> set (update_first P (\<lambda>_. y) xs)"
  by (induction xs) auto

lemma purchases_of_nonempty:
  "p \<in> set (purchases d) \<Longrightarrow> purchases_of d (customer p) \<noteq> []"
  by (auto simp: purchases_of_def filter_empty_conv)

lemma purchases_of_post_save: "purchases_of (post_save d p) j = purchases_of d j"
  by (simp add: post_save_def purchases_of_updatePurchaseStats split: option.splits)

lemma post_save_reconciles:
  assumes "findById_customer (post_save d1 p) (customer p) = Some c"
    and "purchases_of d1 (customer p) \<noteq> []"
  shows "aggregates_equal_fold c (purchases_of (post_save d1 p) (customer p))"
proof -
  have e: "post_save d1 p = (case findById_customer d1 (customer p) of
                            Some c0 \<Rightarrow> updatePurchaseStats d1 c0 | None \<Rightarrow> d1)"
    by (simp add: post_save_def)
  have ne: "purchases_of (post_save d1 p) (customer p) \<noteq> []"
    using assms(2) by (simp add: purchases_of_post_save)
  show ?thesis by (rule reconciled_customer [OF e assms(1) ne])
qed

lemma post_save_keeps_customer:
  assumes "findById_customer d1 j = Some c0"
  shows "\<exists>c. findById_customer (post_save d1 p) j = Some c"
proof (cases "findById_customer d1 (customer p)")
  case None
  then show ?thesis using assms by (simp add: post_save_def)
next
  case (Some c1)
  have "map oid (customers (post_save d1 p)) = map oid (customers d1)"
    using Some by (simp add: post_save_def updatePurchaseStats_def Let_def persist_customer_def
        map_oid_update_first split: list.splits)
  then show ?thesis
    using assms find_by_oid_cong [of "customers (post_save d1 p)" "customers d1" j]
    by (simp add: findById_customer_def)
qed


lemma createPurchase_unfold:
  assumes "createPurchase d user newId now b = Inr (d', p)"
  shows "\<exists>c0. findOne_customer d (body_customer b) user = Some c0"
    and "p = pre_save now (new_purchase newId user now b)"
    and "d' = post_save (d\<lparr>purchases := purchases d @ [p]\<rparr>) p"
  using assms by (auto simp: createPurchase_def Let_def split: option.splits if_splits)

lemma updatePaymentStatus_unfold:
  assumes "updatePaymentStatus d user i now pb = Inr (d', p)"
  shows "\<exists>p0. findOne_purchase d i user = Some p0 \<and> oid p = oid p0"
    and "d' = post_save (persist_purchase p d) p"
proof -
  from assms obtain p0 where p0: "findOne_purchase d i user = Some p0"
    by (auto simp: updatePaymentStatus_def split: option.splits)
  with assms have "oid p = oid p0"
    by (auto simp: updatePaymentStatus_def Let_def pre_save_frame split: option.splits if_splits)
  with p0 show "\<exists>p0. findOne_purchase d i user = Some p0 \<and> oid p = oid p0" by blast
  from assms p0 show "d' = post_save (persist_purchase p d) p"
    by (auto simp: updatePaymentStatus_def Let_def split: if_splits)
qed

section \<open>Facts about the rounding of the growth figures\<close>







lemma round_half_even_near: "\<bar>of_int (round_half_even q) - q\<bar> \<le> 1 / 2"
proof -
  have "of_int \<lfloor>q\<rfloor> \<le> q" and "q < of_int \<lfloor>q\<rfloor> + 1"
    by linarith+
  then show ?thesis
    by (auto simp: round_half_even_def Let_def)
qed

lemma to_double_near:
  assumes "to_double x = Some r"
  shows "\<bar>r - x\<bar> \<le> 2 powi (max (binade \<bar>x\<bar> - 52) (- 1074)) / 2"
proof (cases "x = 0")
  case True
  with assms show ?thesis by (simp add: to_double_def)
next
  case False
  define ulp :: rat where "ulp = 2 powi (max (binade \<bar>x\<bar> - 52) (- 1074))"
  define m where "m = round_half_even (\<bar>x\<bar> / ulp)"
  have ulp: "0 < ulp" by (simp add: ulp_def)
  from assms False have r: "r = sgn x * (of_int m * ulp)"
    by (simp add: to_double_def Let_def ulp_def m_def split: if_splits)
  have "\<bar>of_int m - \<bar>x\<bar> / ulp\<bar> \<le> 1 / 2"
    unfolding m_def by (rule round_half_even_near)
  then have "\<bar>of_int m - \<bar>x\<bar> / ulp\<bar> * ulp \<le> 1 / 2 * ulp"
    using ulp by (intro mult_right_mono) simp_all
  moreover have "\<bar>of_int m - \<bar>x\<bar> / ulp\<bar> * ulp = \<bar>of_int m * ulp - \<bar>x\<bar>\<bar>"
  proof -
    have "\<bar>of_int m - \<bar>x\<bar> / ulp\<bar> * ulp = \<bar>(of_int m - \<bar>x\<bar> / ulp) * ulp\<bar>"
      using ulp by (simp add: abs_mult)
    also have "(of_int m - \<bar>x\<bar> / ulp) * ulp = of_int m * ulp - \<bar>x\<bar>"
      using ulp by (simp add: left_diff_distrib)
    finally show ?thesis .
  qed
  moreover have "\<bar>r - x\<bar> = \<bar>of_int m * ulp - \<bar>x\<bar>\<bar>"
  proof (cases "0 < x")
    case True
    then show ?thesis by (simp add: r)
  next
    case neg: False
    with False have "x < 0" by simp
    then show ?thesis by (simp add: r abs_minus_commute)
  qed
  ultimately have "\<bar>r - x\<bar> \<le> 1 / 2 * ulp" by (simp only:)
  then show ?thesis by (simp add: ulp_def)
qed

section \<open>The claims about the store\<close>

text \<open>
  Where the reconciliation does hold: after a purchase is created the owning customer
  carries the count, the sum of totalAmount and the latest purchaseDate of its
  purchases; so does an existing customer after a payment update, and after a purchase
  is deleted when the customer still has at least one purchase.
\<close>

lemma aggregates_equal_fold_while_purchases_remain:
  "(createPurchase d user newId now b = Inr (d', p) \<longrightarrow>
      (\<exists>c. findById_customer d' (customer p) = Some c
           \<and> aggregates_equal_fold c (purchases_of d' (customer p))))
   \<and> (updatePaymentStatus d user i now pb = Inr (d', p)
      \<and> findById_customer d' (customer p) = Some c
      \<longrightarrow> aggregates_equal_fold c (purchases_of d' (customer p)))
   \<and> (deletePurchase d user i = Inr d' \<and> findOne_purchase d i user = Some p
      \<and> findById_customer d' (customer p) = Some c \<and> purchases_of d' (customer p) \<noteq> []
      \<longrightarrow> aggregates_equal_fold c (purchases_of d' (customer p)))"
proof (intro conjI impI)
  assume a: "createPurchase d user newId now b = Inr (d', p)"
  let ?d1 = "d\<lparr>purchases := purchases d @ [p]\<rparr>"
  from createPurchase_unfold [OF a] obtain c0
    where c0: "findOne_customer d (body_customer b) user = Some c0"
      and p: "p = pre_save now (new_purchase newId user now b)"
      and d': "d' = post_save ?d1 p"
    by blast
  from p have cp: "customer p = body_customer b"
    by (simp add: pre_save_frame new_purchase_def)
  from c0 obtain z where "findById_customer ?d1 (customer p) = Some z"
    using find_weaken [of "\<lambda>c. oid c = body_customer b \<and> createdBy c = user" "customers d" c0
                          "\<lambda>c. oid c = body_customer b"]
    by (auto simp: findOne_customer_def findById_customer_def cp)
  then obtain c where c: "findById_customer d' (customer p) = Some c"
    using post_save_keeps_customer [of ?d1 "customer p" z p] d' by auto
  have "purchases_of ?d1 (customer p) \<noteq> []"
    by (rule purchases_of_nonempty) simp
  then have "aggregates_equal_fold c (purchases_of d' (customer p))"
    using post_save_reconciles [of ?d1 p c] c d' by simp
  with c show "\<exists>c. findById_customer d' (customer p) = Some c
                  \<and> aggregates_equal_fold c (purchases_of d' (customer p))"
    by blast
next
  assume a: "updatePaymentStatus d user i now pb = Inr (d', p)
      \<and> findById_customer d' (customer p) = Some c"
  let ?d1 = "persist_purchase p d"
  from a updatePaymentStatus_unfold [of d user i now pb d' p] obtain p0
    where p0: "findOne_purchase d i user = Some p0" "oid p = oid p0"
      and d': "d' = post_save ?d1 p"
    by blast
  from p0 have "p0 \<in> set (purchases d)"
    using find_Some_P [of "\<lambda>p. oid p = i \<and> createdBy p = user" "purchases d" p0]
    by (simp add: findOne_purchase_def)
  with p0 have "\<exists>x\<in>set (purchases d). oid x = oid p" by auto
  then have "p \<in> set (purchases ?d1)"
    by (simp add: persist_purchase_def update_first_mem)
  then have "purchases_of ?d1 (customer p) \<noteq> []"
    by (rule purchases_of_nonempty)
  then show "aggregates_equal_fold c (purchases_of d' (customer p))"
    using post_save_reconciles [of ?d1 p c] a d' by simp
next
  assume a: "deletePurchase d user i = Inr d' \<and> findOne_purchase d i user = Some p
      \<and> findById_customer d' (customer p) = Some c \<and> purchases_of d' (customer p) \<noteq> []"
  then obtain d1 where "d' = (case findById_customer d1 (customer p) of
                     Some c0 \<Rightarrow> updatePurchaseStats d1 c0 | None \<Rightarrow> d1)"
    by (auto simp: deletePurchase_def Let_def)
  with a show "aggregates_equal_fold c (purchases_of d' (customer p))"
    by (intro reconciled_customer [of d' d1]) simp_all
qed

text \<open>
  The three operations on the example store: a second purchase is created, 40 is paid
  on the first, and the first of two purchases is deleted.
\<close>

lemma aggregates_equal_fold_examples:
  "createPurchase ex_db 7 11 2000 ex_body =
     Inr (ex_db\<lparr>purchases := [ex_purchase, pre_save 2000 (new_purchase 11 7 2000 ex_body)],
                 customers := [ex_customer\<lparr>totalPurchases := 2, totalSpent := 110,
                                  lastPurchaseDate := Some 2000\<rparr>]\<rparr>,
          pre_save 2000 (new_purchase 11 7 2000 ex_body))
   \<and> aggregates_equal_fold
        (ex_customer\<lparr>totalPurchases := 2, totalSpent := 110, lastPurchaseDate := Some 2000\<rparr>)
        [ex_purchase, pre_save 2000 (new_purchase 11 7 2000 ex_body)]
   \<and> updatePaymentStatus ex_db 7 10 2000 ex_payment =
       Inr (ex_db\<lparr>purchases := [ex_purchase\<lparr>paidAmount := 40, remainingAmount := Some 60\<rparr>]\<rparr>,
            ex_purchase\<lparr>paidAmount := 40, remainingAmount := Some 60\<rparr>)
   \<and> aggregates_equal_fold ex_customer
        [ex_purchase\<lparr>paidAmount := 40, remainingAmount := Some 60\<rparr>]
   \<and> deletePurchase (ex_db\<lparr>purchases := [ex_purchase, ex_purchase2]\<rparr>) 7 10 =
       Inr \<lparr>purchases = [ex_purchase2],
            customers = [ex_customer\<lparr>totalPurchases := 1, totalSpent := 50,
                             lastPurchaseDate := Some 3000\<rparr>]\<rparr>
   \<and> aggregates_equal_fold
        (ex_customer\<lparr>totalPurchases := 1, totalSpent := 50, lastPurchaseDate := Some 3000\<rparr>)
        [ex_purchase2]"
proof -
  let ?p = "pre_save 2000 (new_purchase 11 7 2000 ex_body)"
  let ?c1 = "ex_customer\<lparr>totalPurchases := 2, totalSpent := 110, lastPurchaseDate := Some 2000\<rparr>"
  let ?d1 = "ex_db\<lparr>purchases := [ex_purchase, ?p], customers := [?c1]\<rparr>"
  let ?p2 = "ex_purchase\<lparr>paidAmount := 40, remainingAmount := Some 60\<rparr>"
  let ?d2 = "ex_db\<lparr>purchases := [?p2]\<rparr>"
  let ?c3 = "ex_customer\<lparr>totalPurchases := 1, totalSpent := 50, lastPurchaseDate := Some 3000\<rparr>"
  let ?d3 = "\<lparr>purchases = [ex_purchase2], customers = [?c3]\<rparr>"
  have cust: "customer ?p = 5" "customer ?p2 = 5" "customer ex_purchase = 5" "customer ex_purchase2 = 5"
    by (simp_all add: pre_save_frame new_purchase_def ex_purchase_def ex_purchase2_def ex_body_def)
  have r1: "createPurchase ex_db 7 11 2000 ex_body = Inr (?d1, ?p)"
    by (simp add: createPurchase_def store_defs derive_defs ex_db_def ex_purchase_def ex_customer_def ex_body_def ex_item_def Let_def)
  have r2: "updatePaymentStatus ex_db 7 10 2000 ex_payment = Inr (?d2, ?p2)"
    by (simp add: updatePaymentStatus_def store_defs derive_defs ex_db_def ex_purchase_def ex_customer_def ex_payment_def Let_def)
  have r3: "deletePurchase (ex_db\<lparr>purchases := [ex_purchase, ex_purchase2]\<rparr>) 7 10 = Inr ?d3"
    by (simp add: deletePurchase_def store_defs ex_db_def ex_purchase_def ex_customer_def ex_purchase2_def Let_def)
  have f3: "findOne_purchase (ex_db\<lparr>purchases := [ex_purchase, ex_purchase2]\<rparr>) 10 7 = Some ex_purchase"
    by (simp add: store_defs ex_db_def ex_purchase_def ex_customer_def ex_purchase2_def)
  have h1: "findById_customer ?d1 5 = Some ?c1" "purchases_of ?d1 5 = [ex_purchase, ?p]"
    by (simp_all add: findById_customer_def purchases_of_def cust) (simp_all add: ex_db_def ex_purchase_def ex_customer_def ex_body_def ex_item_def)
  have h2: "findById_customer ?d2 5 = Some ex_customer" "purchases_of ?d2 5 = [?p2]"
    by (simp_all add: findById_customer_def purchases_of_def cust) (simp_all add: ex_db_def ex_purchase_def ex_customer_def)
  have h3: "findById_customer ?d3 5 = Some ?c3" "purchases_of ?d3 5 = [ex_purchase2]"
    by (simp_all add: findById_customer_def purchases_of_def cust) (simp_all add: ex_db_def ex_purchase_def ex_customer_def ex_purchase2_def)
  from aggregates_equal_fold_while_purchases_remain
         [where d = ex_db and user = 7 and newId = 11 and now = 2000 and b = ex_body
            and d' = ?d1 and p = ?p and c = ?c1]
  have a1: "aggregates_equal_fold ?c1 [ex_purchase, ?p]"
    using r1 h1 cust by simp
  from aggregates_equal_fold_while_purchases_remain
         [where d = ex_db and user = 7 and i = 10 and now = 2000 and pb = ex_payment
            and d' = ?d2 and p = ?p2 and c = ex_customer]
  have a2: "aggregates_equal_fold ex_customer [?p2]"
    using r2 h2 cust by simp
  from aggregates_equal_fold_while_purchases_remain
         [where d = "ex_db\<lparr>purchases := [ex_purchase, ex_purchase2]\<rparr>" and user = 7 and i = 10
            and d' = ?d3 and p = ex_purchase and c = ?c3]
  have a3: "aggregates_equal_fold ?c3 [ex_purchase2]"
    using r3 f3 h3 cust by simp
  show ?thesis using r1 r2 r3 a1 a2 a3 by simp
qed

text \<open>
  Claim C1 fails on the code when the last purchase of a customer is deleted:
  \<^verbatim>\<open>deletePurchase\<close> removes purchase 10 and calls \<^verbatim>\<open>updatePurchaseStats\<close>, the
  aggregation returns no row, and customer 5, now without purchases, still shows one
  purchase and 100 spent, where the count and the sum of its purchases are 0.
\<close>

theorem deletePurchase_last_leaves_stale_aggregates:
  "deletePurchase ex_db 7 10 = Inr (ex_db\<lparr>purchases := []\<rparr>)
   \<and> findOne_purchase ex_db 10 7 = Some ex_purchase
   \<and> findById_customer (ex_db\<lparr>purchases := []\<rparr>) (customer ex_purchase) = Some ex_customer
   \<and> totalPurchases ex_customer \<noteq>
       of_nat (length (purchases_of (ex_db\<lparr>purchases := []\<rparr>) (customer ex_purchase)))
   \<and> totalSpent ex_customer \<noteq>
       sum_list (map amount_of (purchases_of (ex_db\<lparr>purchases := []\<rparr>) (customer ex_purchase)))"
  by (simp add: deletePurchase_def store_defs ex_db_def ex_purchase_def ex_customer_def)

text \<open>
  Claim C10: without purchases \<^verbatim>\<open>updatePurchaseStats\<close> saves the customer as it
  is, so a stored customer keeps its three aggregates and the store is unchanged; with
  at least one purchase the three fields are overwritten with count, sum and maximum.
\<close>

theorem updatePurchaseStats_only_with_purchases:
  "(purchases_of d (oid c) = [] \<longrightarrow>
      updatePurchaseStats d c = persist_customer c d
      \<and> (findById_customer d (oid c) = Some c \<longrightarrow> updatePurchaseStats d c = d))
   \<and> (purchases_of d (oid c) \<noteq> [] \<longrightarrow>
      updatePurchaseStats d c =
        persist_customer
          (c\<lparr>totalPurchases := of_nat (length (purchases_of d (oid c))),
             totalSpent := sum_list (map amount_of (purchases_of d (oid c))),
             lastPurchaseDate := Some (Max (set (map purchaseDate (purchases_of d (oid c)))))\<rparr>) d)"
  using updatePurchaseStats_empty [of d c] updatePurchaseStats_nonempty [of d c]
    persist_customer_same [of d c]
  by auto


text \<open>
  Both branches on the example store: no purchases, and one purchase that resets a
  wrong count of 7 to 1.
\<close>

theorem updatePurchaseStats_only_with_purchases_witness:
  "purchases_of (ex_db\<lparr>purchases := []\<rparr>) (oid ex_customer) = []
   \<and> findById_customer (ex_db\<lparr>purchases := []\<rparr>) (oid ex_customer) = Some ex_customer
   \<and> updatePurchaseStats (ex_db\<lparr>purchases := []\<rparr>) ex_customer = ex_db\<lparr>purchases := []\<rparr>
   \<and> purchases_of ex_db (oid (ex_customer\<lparr>totalPurchases := 7\<rparr>)) \<noteq> []
   \<and> updatePurchaseStats ex_db (ex_customer\<lparr>totalPurchases := 7\<rparr>) = ex_db"
  using updatePurchaseStats_only_with_purchases [of "ex_db\<lparr>purchases := []\<rparr>" ex_customer]
    updatePurchaseStats_only_with_purchases [of ex_db "ex_customer\<lparr>totalPurchases := 7\<rparr>"]
  by (simp add: findById_customer_def purchases_of_def persist_customer_def amount_of_def ex_db_def ex_purchase_def ex_customer_def)

text \<open>
  Claim C4 fails on \<^verbatim>\<open>updatePurchase\<close>: the body \<^verbatim>\<open>{ paidAmount: 100 }\<close> is
  written as it is, and the stored purchase keeps remainingAmount 100 and the status
  pending, where the derivation gives 0 and completed, as \<^verbatim>\<open>updatePaymentStatus\<close>
  stores them for the same payment.
\<close>

theorem updatePurchase_skips_derivation:
  "updatePurchase ex_db 7 10 ex_update =
     Inr (ex_db\<lparr>purchases := [ex_purchase\<lparr>paidAmount := 100\<rparr>]\<rparr>,
          ex_purchase\<lparr>paidAmount := 100\<rparr>)
   \<and> totalAmount (ex_purchase\<lparr>paidAmount := 100\<rparr>) = Some 100
   \<and> paidAmount (ex_purchase\<lparr>paidAmount := 100\<rparr>) = 100
   \<and> remainingAmount (ex_purchase\<lparr>paidAmount := 100\<rparr>) = Some 100
   \<and> paymentStatus (ex_purchase\<lparr>paidAmount := 100\<rparr>) = Pending
   \<and> remainingAmount (pre_save 2000 (ex_purchase\<lparr>paidAmount := 100\<rparr>)) = Some 0
   \<and> paymentStatus (pre_save 2000 (ex_purchase\<lparr>paidAmount := 100\<rparr>)) = Completed
   \<and> updatePaymentStatus ex_db 7 10 2000 (ex_payment\<lparr>pay_paidAmount := Some 100\<rparr>) =
       Inr (ex_db\<lparr>purchases := [ex_purchase\<lparr>paidAmount := 100, remainingAmount := Some 0,
                                      paymentStatus := Completed\<rparr>]\<rparr>,
            ex_purchase\<lparr>paidAmount := 100, remainingAmount := Some 0,
                          paymentStatus := Completed\<rparr>)"
proof -
  have "updatePurchase ex_db 7 10 ex_update =
     Inr (ex_db\<lparr>purchases := [ex_purchase\<lparr>paidAmount := 100\<rparr>]\<rparr>,
          ex_purchase\<lparr>paidAmount := 100\<rparr>)"
    by (simp add: updatePurchase_def apply_update_def set_field_def store_defs
        ex_db_def ex_purchase_def ex_customer_def ex_update_def)
  moreover have "updatePaymentStatus ex_db 7 10 2000 (ex_payment\<lparr>pay_paidAmount := Some 100\<rparr>) =
       Inr (ex_db\<lparr>purchases := [ex_purchase\<lparr>paidAmount := 100, remainingAmount := Some 0,
                                      paymentStatus := Completed\<rparr>]\<rparr>,
            ex_purchase\<lparr>paidAmount := 100, remainingAmount := Some 0,
                          paymentStatus := Completed\<rparr>)"
    by (simp add: updatePaymentStatus_def store_defs derive_defs Let_def
        ex_db_def ex_purchase_def ex_customer_def ex_payment_def)
  moreover have "remainingAmount (pre_save 2000 (ex_purchase\<lparr>paidAmount := 100\<rparr>)) = Some 0"
    and "paymentStatus (pre_save 2000 (ex_purchase\<lparr>paidAmount := 100\<rparr>)) = Completed"
    by (simp_all add: derive_defs ex_purchase_def)
  ultimately show ?thesis by (simp add: ex_purchase_def)
qed

text \<open>
  Claim C7: for a customer found in the caller's shop, \<^verbatim>\<open>deleteCustomer\<close> with at
  least one purchase only sets isActive to false: the purchases are untouched, no
  customer is removed and the customer is still found by its id. With no purchase the
  document with that id is removed, and with unique ids no customer with that id is
  left.
\<close>

theorem deleteCustomer_deactivates_or_deletes:
  assumes "findOne_customer d i user = Some c"
  shows "(purchases_of d i \<noteq> [] \<longrightarrow>
            deleteCustomer d user i =
              Inr (persist_customer (c\<lparr>isActive := False\<rparr>) d, Customer_deactivated)
            \<and> purchases (persist_customer (c\<lparr>isActive := False\<rparr>) d) = purchases d
            \<and> length (customers (persist_customer (c\<lparr>isActive := False\<rparr>) d)) = length (customers d)
            \<and> findById_customer (persist_customer (c\<lparr>isActive := False\<rparr>) d) i
                = Some (c\<lparr>isActive := False\<rparr>))
       \<and> (purchases_of d i = [] \<longrightarrow>
            deleteCustomer d user i =
              Inr (d\<lparr>customers := delete_first (\<lambda>x. oid x = i) (customers d)\<rparr>, Customer_deleted)
            \<and> (distinct (map oid (customers d)) \<longrightarrow>
                 findById_customer (d\<lparr>customers := delete_first (\<lambda>x. oid x = i) (customers d)\<rparr>) i
                   = None))"
proof -
  from assms have ci: "oid c = i"
    using find_Some_P [of "\<lambda>c. oid c = i \<and> createdBy c = user" "customers d" c]
    by (simp add: findOne_customer_def)
  from assms obtain c0 where c0: "findById_customer d i = Some c0"
    using find_weaken [of "\<lambda>c. oid c = i \<and> createdBy c = user" "customers d" c "\<lambda>c. oid c = i"]
    by (auto simp: findOne_customer_def findById_customer_def)
  have found: "findById_customer (persist_customer (c\<lparr>isActive := False\<rparr>) d) i
                 = Some (c\<lparr>isActive := False\<rparr>)"
    using findById_persist_customer [of d "c\<lparr>isActive := False\<rparr>" c0] c0 ci by simp
  have len: "length (customers (persist_customer (c\<lparr>isActive := False\<rparr>) d)) = length (customers d)"
    by (simp add: persist_customer_def length_update_first)
  show ?thesis
    using assms ci found len
    by (simp add: deleteCustomer_def Let_def purchases_persist_customer
        findById_customer_def find_delete_first_distinct)
qed


text \<open>
  The example customer with its one purchase is deactivated; without the purchase it
  is deleted.
\<close>

theorem deleteCustomer_deactivates_or_deletes_witness:
  "findOne_customer ex_db 5 7 = Some ex_customer
   \<and> purchases_of ex_db 5 \<noteq> []
   \<and> deleteCustomer ex_db 7 5 =
       Inr (ex_db\<lparr>customers := [ex_customer\<lparr>isActive := False\<rparr>]\<rparr>, Customer_deactivated)
   \<and> findOne_customer (ex_db\<lparr>purchases := []\<rparr>) 5 7 = Some ex_customer
   \<and> purchases_of (ex_db\<lparr>purchases := []\<rparr>) 5 = []
   \<and> distinct (map oid (customers (ex_db\<lparr>purchases := []\<rparr>)))
   \<and> deleteCustomer (ex_db\<lparr>purchases := []\<rparr>) 7 5 =
       Inr (\<lparr>purchases = [], customers = []\<rparr>, Customer_deleted)"
proof -
  have f1: "findOne_customer ex_db 5 7 = Some ex_customer"
    and f2: "findOne_customer (ex_db\<lparr>purchases := []\<rparr>) 5 7 = Some ex_customer"
    by (simp_all add: findOne_customer_def ex_db_def ex_purchase_def ex_customer_def)
  show ?thesis
    using deleteCustomer_deactivates_or_deletes [OF f1] deleteCustomer_deactivates_or_deletes [OF f2] f1 f2
    by (simp add: purchases_of_def persist_customer_def ex_db_def ex_purchase_def ex_customer_def)
qed

text \<open>
  Claim C8: when no purchase with the given id belongs to the caller, because the id is
  unknown or the purchase is another shop's, get, update, delete and payment update all
  fail with the 404 error; creation fails with the 404 error when no customer with the
  given id belongs to the caller.
\<close>

theorem foreign_or_unknown_id_is_not_found:
  "((\<forall>p\<in>set (purchases d). oid p = i \<longrightarrow> createdBy p \<noteq> user) \<longrightarrow>
      getPurchase d user i = Inl (Error ''Purchase not found'' 404)
      \<and> updatePurchase d user i u = Inl (Error ''Purchase not found'' 404)
      \<and> deletePurchase d user i = Inl (Error ''Purchase not found'' 404)
      \<and> updatePaymentStatus d user i now pb = Inl (Error ''Purchase not found'' 404))
   \<and> ((\<forall>c\<in>set (customers d). oid c = body_customer b \<longrightarrow> createdBy c \<noteq> user) \<longrightarrow>
      createPurchase d user newId now b = Inl (Error ''Customer not found'' 404))"
proof (intro conjI impI)
  assume "\<forall>p\<in>set (purchases d). oid p = i \<longrightarrow> createdBy p \<noteq> user"
  then have none: "findOne_purchase d i user = None"
    by (simp add: findOne_purchase_def find_None_foreign)
  show "getPurchase d user i = Inl (Error ''Purchase not found'' 404)"
    by (simp add: getPurchase_def none purchase_not_found_def)
  show "updatePurchase d user i u = Inl (Error ''Purchase not found'' 404)"
    by (simp add: updatePurchase_def none purchase_not_found_def)
  show "deletePurchase d user i = Inl (Error ''Purchase not found'' 404)"
    by (simp add: deletePurchase_def none purchase_not_found_def)
  show "updatePaymentStatus d user i now pb = Inl (Error ''Purchase not found'' 404)"
    by (simp add: updatePaymentStatus_def none purchase_not_found_def)
next
  assume "\<forall>c\<in>set (customers d). oid c = body_customer b \<longrightarrow> createdBy c \<noteq> user"
  then have "findOne_customer d (body_customer b) user = None"
    by (simp add: findOne_customer_def find_None_foreign)
  then show "createPurchase d user newId now b = Inl (Error ''Customer not found'' 404)"
    by (simp add: createPurchase_def customer_not_found_def)
qed

text \<open>
  Shop 8 asks for purchase 10 of shop 7, shop 7 for the unknown purchase 99, and shop 8
  creates a purchase for customer 5 of shop 7.
\<close>

theorem foreign_or_unknown_id_is_not_found_witness:
  "getPurchase ex_db 8 10 = Inl (Error ''Purchase not found'' 404)
   \<and> updatePurchase ex_db 8 10 ex_update = Inl (Error ''Purchase not found'' 404)
   \<and> deletePurchase ex_db 8 10 = Inl (Error ''Purchase not found'' 404)
   \<and> updatePaymentStatus ex_db 8 10 2000 ex_payment = Inl (Error ''Purchase not found'' 404)
   \<and> deletePurchase ex_db 7 99 = Inl (Error ''Purchase not found'' 404)
   \<and> createPurchase ex_db 8 11 2000 ex_body = Inl (Error ''Customer not found'' 404)"
  using foreign_or_unknown_id_is_not_found
          [where d = ex_db and i = 10 and user = 8 and u = ex_update and now = 2000
             and pb = ex_payment and b = ex_body and newId = 11]
        foreign_or_unknown_id_is_not_found
          [where d = ex_db and i = 99 and user = 7 and b = ex_body]
  by (simp add: ex_db_def ex_purchase_def ex_customer_def ex_body_def)


text \<open>
  Claim C5 fails on the code. A purchase created with one item of 2 at 5 and an explicit
  total of 0 is stored with the total 10: the test \<^verbatim>\<open>!this.totalAmount\<close> takes the
  given 0 for a missing total. The same body without a total, the case the hook's
  comment names, is rejected by the required validator before the hook runs, and
  nothing is stored.
\<close>

theorem createPurchase_zero_total_replaced:
  "createPurchase ex_db 7 11 2000 (ex_body\<lparr>body_totalAmount := Some 0\<rparr>) =
     Inr (ex_db\<lparr>purchases :=
                   [ex_purchase,
                    pre_save 2000 (new_purchase 11 7 2000 (ex_body\<lparr>body_totalAmount := Some 0\<rparr>))],
                 customers := [ex_customer\<lparr>totalPurchases := 2, totalSpent := 110,
                                  lastPurchaseDate := Some 2000\<rparr>]\<rparr>,
          pre_save 2000 (new_purchase 11 7 2000 (ex_body\<lparr>body_totalAmount := Some 0\<rparr>)))
   \<and> totalAmount (new_purchase 11 7 2000 (ex_body\<lparr>body_totalAmount := Some 0\<rparr>)) = Some 0
   \<and> totalAmount (pre_save 2000 (new_purchase 11 7 2000 (ex_body\<lparr>body_totalAmount := Some 0\<rparr>)))
       = Some 10
   \<and> createPurchase ex_db 7 11 2000 (ex_body\<lparr>body_totalAmount := None\<rparr>) = Inl ValidationError"
proof -
  have "createPurchase ex_db 7 11 2000 (ex_body\<lparr>body_totalAmount := Some 0\<rparr>) =
     Inr (ex_db\<lparr>purchases :=
                   [ex_purchase,
                    pre_save 2000 (new_purchase 11 7 2000 (ex_body\<lparr>body_totalAmount := Some 0\<rparr>))],
                 customers := [ex_customer\<lparr>totalPurchases := 2, totalSpent := 110,
                                  lastPurchaseDate := Some 2000\<rparr>]\<rparr>,
          pre_save 2000 (new_purchase 11 7 2000 (ex_body\<lparr>body_totalAmount := Some 0\<rparr>)))"
    by (simp add: createPurchase_def store_defs derive_defs Let_def
        ex_db_def ex_purchase_def ex_customer_def ex_body_def ex_item_def)
  moreover have "createPurchase ex_db 7 11 2000 (ex_body\<lparr>body_totalAmount := None\<rparr>)
                   = Inl ValidationError"
    by (simp add: createPurchase_def findOne_customer_def new_purchase_def validate_purchase_def
        ex_db_def ex_customer_def ex_body_def)
  moreover have "totalAmount (pre_save 2000 (new_purchase 11 7 2000
                   (ex_body\<lparr>body_totalAmount := Some 0\<rparr>))) = Some 10"
    by (simp add: pre_save_totalAmount new_purchase_def not_truthy_def ex_body_def ex_item_def)
  ultimately show ?thesis by (simp add: new_purchase_def)
qed




end
